theory Spec2Isabelle
  imports Main "HOL-Library.Word"
begin

section \<open>Data model\<close>

text \<open>
  The allocator of \<^verbatim>\<open>src/unnamed/part_000\<close> (the throwing, instrumented variant) and, further
  down, the three functions of \<^verbatim>\<open>src/src/common/allocator.cpp\<close> (the logging variant).

  \<^verbatim>\<open>idx_t\<close> is an unsigned 64-bit integer, so sizes and the outstanding-byte counter wrap
  around. A \<^verbatim>\<open>data_ptr_t\<close> is an address; \<^verbatim>\<open>nullptr\<close> is address 0.
\<close>

type_synonym idx_t = "64 word"
type_synonym data_ptr_t = nat
type_synonym data_t = "8 word"

abbreviation nullptr :: data_ptr_t where
  "nullptr \<equiv> 0"

text \<open>
  What a call can raise. \<^verbatim>\<open>InternalException\<close> carries its format string and the arguments
  formatted into it; \<^verbatim>\<open>bad_alloc\<close> is \<^verbatim>\<open>std::bad_alloc\<close>. \<open>AssertionFailure\<close> is a
  \<^verbatim>\<open>D_ASSERT\<close> whose condition is false, with the text of the condition.
  \<open>UndefinedBehaviour\<close> marks the places where C++ gives the call no meaning: a \<^verbatim>\<open>memcpy\<close>
  outside the blocks it is given, and a member call through a pointer to no object.
\<close>

datatype exception =
    InternalException string "idx_t list"
  | bad_alloc
  | AssertionFailure string
  | UndefinedBehaviour string

text \<open>
  The preprocessor switches. \<^verbatim>\<open>part_000\<close> defines \<^verbatim>\<open>LEMON_MALLOC\<close> itself (line 25); the
  code under \<^verbatim>\<open>#ifndef LEMON_MALLOC\<close> is what is compiled once that line is removed, and the
  model keeps both. With \<^verbatim>\<open>DEBUG\<close> and \<^verbatim>\<open>LEMON_MALLOC\<close> both defined the file does not
  compile (lines 140 and 191 name \<^verbatim>\<open>result\<close> and \<^verbatim>\<open>new_pointer\<close>, which are then declared
  later or not at all), so a build is either a release build, with or without
  \<^verbatim>\<open>LEMON_MALLOC\<close>, or a debug build over the function table, with or without
  \<^verbatim>\<open>DUCKDB_DEBUG_ALLOCATION\<close>.
\<close>

datatype build =
    Release bool
  | Debug bool

text \<open>
  \<^verbatim>\<open>MAXIMUM_ALLOC_SIZE\<close> is declared in \<^verbatim>\<open>duckdb/common/allocator.hpp\<close>, which is not
  among the sources: it is a parameter of the model.
\<close>

record config =
  mode :: build
  MAXIMUM_ALLOC_SIZE :: idx_t

fun DEBUG_mode :: "build \<Rightarrow> bool" where
  "DEBUG_mode (Release lemon) = False"
| "DEBUG_mode (Debug extended) = True"

fun LEMON_MALLOC_mode :: "build \<Rightarrow> bool" where
  "LEMON_MALLOC_mode (Release lemon) = lemon"
| "LEMON_MALLOC_mode (Debug extended) = False"

fun DUCKDB_DEBUG_ALLOCATION_mode :: "build \<Rightarrow> bool" where
  "DUCKDB_DEBUG_ALLOCATION_mode (Release lemon) = False"
| "DUCKDB_DEBUG_ALLOCATION_mode (Debug extended) = extended"

definition DEBUG :: "config \<Rightarrow> bool" where
  "DEBUG cfg = DEBUG_mode (mode cfg)"

definition LEMON_MALLOC :: "config \<Rightarrow> bool" where
  "LEMON_MALLOC cfg = LEMON_MALLOC_mode (mode cfg)"

definition DUCKDB_DEBUG_ALLOCATION :: "config \<Rightarrow> bool" where
  "DUCKDB_DEBUG_ALLOCATION cfg = DUCKDB_DEBUG_ALLOCATION_mode (mode cfg)"

text \<open>
  Modelled from the spec: \<^verbatim>\<open>D_ASSERT\<close> (\<^verbatim>\<open>duckdb/common/assert.hpp\<close> is not among the
  sources). The spec has its checks made in debug builds only, where a false condition is a
  fatal internal-consistency failure, and never made in production builds.
  \<open>D_ASSERT_fails cfg c\<close> says that \<^verbatim>\<open>D_ASSERT(c)\<close> stops the call.
\<close>

definition D_ASSERT_fails :: "config \<Rightarrow> bool \<Rightarrow> bool" where
  "D_ASSERT_fails cfg c = (if DEBUG cfg then \<not> c else False)"

subsection \<open>AllocatorDebugInfo\<close>

record AllocatorDebugInfo =
  allocation_count :: idx_t
  pointers :: "data_ptr_t \<rightharpoonup> idx_t \<times> string"

subsection \<open>Allocator\<close>

text \<open>
  The three backend functions take the \<^verbatim>\<open>PrivateAllocatorData\<close> pointer and work on memory
  the allocator does not see. \<open>'b\<close> stands for all a backend reads and writes (its private
  data and the memory it manages): \<open>private_data\<close> holds it, a backend function returns it
  updated. The functions themselves are parameters (\<^verbatim>\<open>DefaultAllocate\<close> and the others are
  declared in the missing header).
\<close>

record 'b Allocator =
  allocate_function :: "'b \<Rightarrow> idx_t \<Rightarrow> data_ptr_t \<times> 'b"
  free_function :: "'b \<Rightarrow> data_ptr_t \<Rightarrow> idx_t \<Rightarrow> 'b"
  reallocate_function :: "'b \<Rightarrow> data_ptr_t \<Rightarrow> idx_t \<Rightarrow> idx_t \<Rightarrow> data_ptr_t \<times> 'b"
  private_data :: 'b
  debug_info :: AllocatorDebugInfo

subsection \<open>The pool behind \<^verbatim>\<open>LEMON_MALLOC\<close>\<close>

text \<open>
  Modelled from the spec: \<^verbatim>\<open>lemon_vmm\<close> with \<^verbatim>\<open>lemon_malloc\<close> and \<^verbatim>\<open>lemon_free\<close>
  (\<^verbatim>\<open>lemon.h\<close> is not among the sources). The spec's pooled backend manages a dedicated
  memory pool; its allocate returns a region of the requested size or null on exhaustion, its
  free releases a region. The pool is a table of live blocks (base address to size) over a
  byte store; where a new block goes, or that none is left (address 0), is decided by
  \<open>policy\<close>, a parameter.
\<close>

record lemon_vmm =
  policy :: "(data_ptr_t \<rightharpoonup> nat) \<Rightarrow> nat \<Rightarrow> data_ptr_t"
  blocks :: "data_ptr_t \<rightharpoonup> nat"
  pool :: "data_ptr_t \<Rightarrow> data_t"

definition lemon_malloc :: "lemon_vmm \<Rightarrow> idx_t \<Rightarrow> data_ptr_t \<times> lemon_vmm" where
  "lemon_malloc v n =
     (let p = policy v (blocks v) (unat n)
      in if p = nullptr then (nullptr, v)
         else (p, v\<lparr>blocks := (blocks v)(p \<mapsto> unat n)\<rparr>))"

definition lemon_free :: "lemon_vmm \<Rightarrow> data_ptr_t \<Rightarrow> lemon_vmm" where
  "lemon_free v p = v\<lparr>blocks := (blocks v)(p := None)\<rparr>"

text \<open>
  \<^verbatim>\<open>memcpy(dst, src, n)\<close> of the C library, on the pool: \<open>n\<close> bytes are read at \<open>src\<close> and
  written at \<open>dst\<close>. It has a meaning only when both are live blocks of at least \<open>n\<close> bytes
  that do not overlap; otherwise the result is \<open>None\<close>.
\<close>

definition holds_bytes :: "lemon_vmm \<Rightarrow> data_ptr_t \<Rightarrow> nat \<Rightarrow> bool" where
  "holds_bytes v p n = (case blocks v p of None \<Rightarrow> False | Some c \<Rightarrow> n \<le> c)"

definition memcpy :: "lemon_vmm \<Rightarrow> data_ptr_t \<Rightarrow> data_ptr_t \<Rightarrow> nat \<Rightarrow> lemon_vmm option" where
  "memcpy v dst src n =
     (if holds_bytes v dst n \<and> holds_bytes v src n \<and> (dst + n \<le> src \<or> src + n \<le> dst)
      then Some (v\<lparr>pool := (\<lambda>a. if dst \<le> a \<and> a < dst + n then pool v (src + (a - dst))
                                 else pool v a)\<rparr>)
      else None)"

subsection \<open>The world\<close>

text \<open>
  Allocators are shared by reference: \<open>allocators\<close> is the store of the \<^verbatim>\<open>Allocator\<close>
  objects, by address. \<open>vmm\<close> is the file-scope pool. \<open>calls\<close> records every invocation of a
  backend function or of the pool, in order; \<open>cout\<close> the lines printed;
  \<open>stack_trace\<close> is what \<^verbatim>\<open>Exception::GetStackTrace()\<close> returns. The file-scope mutex is
  locked and unlocked around each pool call; calls run one at a time here, so it is left out.
\<close>

datatype backend_call =
    allocate_call nat idx_t
  | free_call nat data_ptr_t idx_t
  | reallocate_call nat data_ptr_t idx_t idx_t
  | lemon_malloc_call idx_t
  | lemon_free_call data_ptr_t
  | reallocate_call_c nat data_ptr_t idx_t

record 'a world =
  allocators :: "nat \<rightharpoonup> 'a"
  vmm :: lemon_vmm
  calls :: "backend_call list"
  cout :: "string list"
  stack_trace :: string

section \<open>AllocatorDebugInfo (part_000, lines 245 to 270)\<close>

definition DebugInfo_AllocateData ::
  "config \<Rightarrow> string \<Rightarrow> AllocatorDebugInfo \<Rightarrow> data_ptr_t \<Rightarrow> idx_t \<Rightarrow> AllocatorDebugInfo" where
  "DebugInfo_AllocateData cfg trace di p n =
     (let di1 = di\<lparr>allocation_count := allocation_count di + n\<rparr>
      in if DUCKDB_DEBUG_ALLOCATION cfg
         then di1\<lparr>pointers := (pointers di1)(p \<mapsto> (n, trace))\<rparr>
         else di1)"

text \<open>
  These functions exist in debug builds only, so their assertions are always checked. An
  assertion that fails leaves what was written before it: the result is the failure, if
  any, with the debug info as it then stands.
\<close>

definition DebugInfo_FreeData ::
  "config \<Rightarrow> AllocatorDebugInfo \<Rightarrow> data_ptr_t \<Rightarrow> idx_t \<Rightarrow> exception option \<times> AllocatorDebugInfo" where
  "DebugInfo_FreeData cfg di p n =
     (if \<not> n \<le> allocation_count di
      then (Some (AssertionFailure ''allocation_count >= size''), di)
      else
        let di1 = di\<lparr>allocation_count := allocation_count di - n\<rparr>
        in if DUCKDB_DEBUG_ALLOCATION cfg
           then (case pointers di1 p of
                   None \<Rightarrow>
                     (Some (AssertionFailure ''pointers.find(pointer) != pointers.end()''), di1)
                 | Some entry \<Rightarrow>
                     if fst entry \<noteq> n
                     then (Some (AssertionFailure ''pointers[pointer].first == size''), di1)
                     else (None, di1\<lparr>pointers := (pointers di1)(p := None)\<rparr>))
           else (None, di1))"

definition DebugInfo_ReallocateData ::
  "config \<Rightarrow> string \<Rightarrow> AllocatorDebugInfo \<Rightarrow> data_ptr_t \<Rightarrow> data_ptr_t \<Rightarrow> idx_t \<Rightarrow> idx_t
     \<Rightarrow> exception option \<times> AllocatorDebugInfo" where
  "DebugInfo_ReallocateData cfg trace di p new_pointer old_size new_size =
     (case DebugInfo_FreeData cfg di p old_size of
        (Some e, di1) \<Rightarrow> (Some e, di1)
      | (None, di1) \<Rightarrow> (None, DebugInfo_AllocateData cfg trace di1 new_pointer new_size))"

section \<open>Allocator (part_000, lines 127 to 210)\<close>

text \<open>
  A method takes the world and \<open>this\<close>, the address of its allocator, and returns what it
  raised or returned together with the world it leaves. \<open>this\<close> is looked up where the code
  reads a member. \<^verbatim>\<open>D_ASSERT(private_data)\<close> holds in every debug build, whose constructor
  creates the private data.
\<close>

definition out_of_range :: string where
  "out_of_range =
     ''Requested allocation size of %llu is out of range - maximum allocation size is %llu''"

definition out_of_range_re :: string where
  "out_of_range_re =
     ''Requested re-allocation size of %llu is out of range - maximum allocation size is %llu''"

definition AllocateData ::
  "config \<Rightarrow> 'b Allocator world \<Rightarrow> nat \<Rightarrow> idx_t \<Rightarrow> (exception + data_ptr_t) \<times> 'b Allocator world" where
  "AllocateData cfg w this n =
     (if D_ASSERT_fails cfg (0 < n) then (Inl (AssertionFailure ''size > 0''), w)
      else if MAXIMUM_ALLOC_SIZE cfg \<le> n then
        (if D_ASSERT_fails cfg False then (Inl (AssertionFailure ''false''), w)
         else (Inl (InternalException out_of_range [n, MAXIMUM_ALLOC_SIZE cfg]), w))
      else if LEMON_MALLOC cfg then
        (case lemon_malloc (vmm w) n of
           (result, v) \<Rightarrow>
             (Inr result, w\<lparr>vmm := v, calls := calls w @ [lemon_malloc_call n]\<rparr>))
      else
        (case allocators w this of
           None \<Rightarrow> (Inl (UndefinedBehaviour ''this''), w)
         | Some a \<Rightarrow>
             (case allocate_function a (private_data a) n of
                (result, pd) \<Rightarrow>
                  let a1 = a\<lparr>private_data := pd\<rparr>;
                      a2 = (if DEBUG cfg
                            then a1\<lparr>debug_info :=
                                   DebugInfo_AllocateData cfg (stack_trace w) (debug_info a1) result n\<rparr>
                            else a1);
                      w1 = w\<lparr>allocators := (allocators w)(this \<mapsto> a2),
                             calls := calls w @ [allocate_call this n]\<rparr>
                  in if result = nullptr then (Inl bad_alloc, w1) else (Inr result, w1))))"

definition FreeData ::
  "config \<Rightarrow> 'b Allocator world \<Rightarrow> nat \<Rightarrow> data_ptr_t \<Rightarrow> idx_t \<Rightarrow> (exception + unit) \<times> 'b Allocator world" where
  "FreeData cfg w this p n =
     (if p = nullptr then (Inr (), w)
      else if D_ASSERT_fails cfg (0 < n) then (Inl (AssertionFailure ''size > 0''), w)
      else if LEMON_MALLOC cfg then
        (Inr (), w\<lparr>vmm := lemon_free (vmm w) p, calls := calls w @ [lemon_free_call p]\<rparr>)
      else
        (case allocators w this of
           None \<Rightarrow> (Inl (UndefinedBehaviour ''this''), w)
         | Some a \<Rightarrow>
             (case (if DEBUG cfg then DebugInfo_FreeData cfg (debug_info a) p n
                    else (None, debug_info a)) of
                (Some e, di) \<Rightarrow>
                  (Inl e, w\<lparr>allocators := (allocators w)(this \<mapsto> a\<lparr>debug_info := di\<rparr>)\<rparr>)
              | (None, di) \<Rightarrow>
                  (Inr (), w\<lparr>allocators := (allocators w)(this \<mapsto>
                                 a\<lparr>private_data := free_function a (private_data a) p n,
                                   debug_info := di\<rparr>),
                              calls := calls w @ [free_call this p n]\<rparr>))))"

definition ReallocateData ::
  "config \<Rightarrow> 'b Allocator world \<Rightarrow> nat \<Rightarrow> data_ptr_t \<Rightarrow> idx_t \<Rightarrow> idx_t
     \<Rightarrow> (exception + data_ptr_t) \<times> 'b Allocator world" where
  "ReallocateData cfg w this p old_size n =
     (if p = nullptr then (Inr nullptr, w)
      else if MAXIMUM_ALLOC_SIZE cfg \<le> n then
        (if D_ASSERT_fails cfg False then (Inl (AssertionFailure ''false''), w)
         else (Inl (InternalException out_of_range_re [n, MAXIMUM_ALLOC_SIZE cfg]), w))
      else if LEMON_MALLOC cfg then
        (let w1 = w\<lparr>cout := cout w @ [''reallocate'']\<rparr>
         in case lemon_malloc (vmm w1) n of
              (new_addr, v1) \<Rightarrow>
                let w2 = w1\<lparr>vmm := v1, calls := calls w1 @ [lemon_malloc_call n]\<rparr>
                in (case memcpy v1 new_addr p (unat old_size) of
                      None \<Rightarrow> (Inl (UndefinedBehaviour ''memcpy''), w2)
                    | Some v2 \<Rightarrow>
                        (Inr new_addr,
                         w2\<lparr>vmm := lemon_free v2 p, calls := calls w2 @ [lemon_free_call p]\<rparr>)))
      else
        (case allocators w this of
           None \<Rightarrow> (Inl (UndefinedBehaviour ''this''), w)
         | Some a \<Rightarrow>
             (case reallocate_function a (private_data a) p old_size n of
                (new_pointer, pd) \<Rightarrow>
                  let a1 = a\<lparr>private_data := pd\<rparr>;
                      cs = calls w @ [reallocate_call this p old_size n]
                  in (case (if DEBUG cfg
                            then DebugInfo_ReallocateData cfg (stack_trace w) (debug_info a1)
                                   p new_pointer old_size n
                            else (None, debug_info a1)) of
                        (Some e, di) \<Rightarrow>
                          (Inl e, w\<lparr>allocators := (allocators w)(this \<mapsto> a1\<lparr>debug_info := di\<rparr>),
                                     calls := cs\<rparr>)
                      | (None, di) \<Rightarrow>
                          let w1 = w\<lparr>allocators := (allocators w)(this \<mapsto> a1\<lparr>debug_info := di\<rparr>),
                                     calls := cs\<rparr>
                          in if new_pointer = nullptr then (Inl bad_alloc, w1)
                             else (Inr new_pointer, w1)))))"

section \<open>AllocatedData (part_000, lines 30 to 64)\<close>

text \<open>
  The owned buffer: a pointer to its allocator (\<open>None\<close> is the null pointer), the region and
  its size.
\<close>

record AllocatedData =
  allocator :: "nat option"
  pointer :: data_ptr_t
  allocated_size :: idx_t

definition AllocatedData_default :: AllocatedData where
  "AllocatedData_default = \<lparr>allocator = None, pointer = nullptr, allocated_size = 0\<rparr>"

definition constructed_with_nullptr :: string where
  "constructed_with_nullptr = ''AllocatedData object constructed with nullptr''"

text \<open>The constructor from an allocator reference, a pointer and a size.\<close>

definition AllocatedData_new :: "nat \<Rightarrow> data_ptr_t \<Rightarrow> idx_t \<Rightarrow> exception + AllocatedData" where
  "AllocatedData_new a p n =
     (if p = nullptr then Inl (InternalException constructed_with_nullptr [])
      else Inr \<lparr>allocator = Some a, pointer = p, allocated_size = n\<rparr>)"

text \<open>
  The move constructor copies the allocator pointer and swaps pointer and size with the null
  pointer and 0 it starts from. The result is the new buffer and \<open>other\<close> as it is left.
\<close>

definition AllocatedData_move :: "AllocatedData \<Rightarrow> AllocatedData \<times> AllocatedData" where
  "AllocatedData_move other =
     (\<lparr>allocator = allocator other, pointer = pointer other,
       allocated_size = allocated_size other\<rparr>,
      other\<lparr>pointer := nullptr, allocated_size := 0\<rparr>)"

text \<open>
  Move assignment swaps the three fields one by one. The result is the assigned buffer and
  \<open>other\<close> as it is left.
\<close>

definition AllocatedData_move_assign ::
  "AllocatedData \<Rightarrow> AllocatedData \<Rightarrow> AllocatedData \<times> AllocatedData" where
  "AllocatedData_move_assign self other =
     (self\<lparr>allocator := allocator other, pointer := pointer other,
            allocated_size := allocated_size other\<rparr>,
      other\<lparr>allocator := allocator self, pointer := pointer self,
             allocated_size := allocated_size self\<rparr>)"

text \<open>
  \<^verbatim>\<open>Reset\<close>, which is also all the destructor does. \<^verbatim>\<open>D_ASSERT(allocator)\<close> guards the call
  through the allocator pointer; without the assertion a null pointer there is a member
  call on no object. An exception of \<^verbatim>\<open>FreeData\<close> leaves the buffer as it was.
\<close>

definition Reset ::
  "config \<Rightarrow> 'b Allocator world \<Rightarrow> AllocatedData
     \<Rightarrow> (exception + unit) \<times> 'b Allocator world \<times> AllocatedData" where
  "Reset cfg w d =
     (if pointer d = nullptr then (Inr (), w, d)
      else
        (case allocator d of
           None \<Rightarrow>
             (if D_ASSERT_fails cfg False then (Inl (AssertionFailure ''allocator''), w, d)
              else (Inl (UndefinedBehaviour ''allocator->FreeData''), w, d))
         | Some a \<Rightarrow>
             (case FreeData cfg w a (pointer d) (allocated_size d) of
                (Inl e, w1) \<Rightarrow> (Inl e, w1, d)
              | (Inr u, w1) \<Rightarrow> (Inr (), w1, d\<lparr>allocated_size := 0, pointer := nullptr\<rparr>))))"

section \<open>The logging variant (src/common/allocator.cpp)\<close>

text \<open>
  The second source file is another draft of the same class: no size ceiling, no debug
  info, no pool, a reallocate function without the old size, and a buffer that holds its
  allocator by reference. Its header is not among the sources; the fields are as the code
  uses them. Modelled here are the functions the claims name, \<^verbatim>\<open>FreeData\<close>,
  \<^verbatim>\<open>ReallocateData\<close> and \<^verbatim>\<open>Reset\<close>, and \<^verbatim>\<open>AllocateData\<close>, which hands out the regions
  they work on.
\<close>

record 'b Allocator_common =
  allocate_function_c :: "'b \<Rightarrow> idx_t \<Rightarrow> data_ptr_t \<times> 'b"
  free_function_c :: "'b \<Rightarrow> data_ptr_t \<Rightarrow> idx_t \<Rightarrow> 'b"
  reallocate_function_c :: "'b \<Rightarrow> data_ptr_t \<Rightarrow> idx_t \<Rightarrow> data_ptr_t \<times> 'b"
  private_data_c :: 'b





definition FreeData_common ::
  "'b Allocator_common world \<Rightarrow> nat \<Rightarrow> data_ptr_t \<Rightarrow> idx_t
     \<Rightarrow> (exception + unit) \<times> 'b Allocator_common world" where
  "FreeData_common w this p n =
     (if p = nullptr then (Inr (), w)
      else
        (case allocators w this of
           None \<Rightarrow> (Inl (UndefinedBehaviour ''this''), w)
         | Some a \<Rightarrow>
             (Inr (), w\<lparr>allocators := (allocators w)(this \<mapsto>
                            a\<lparr>private_data_c := free_function_c a (private_data_c a) p n\<rparr>),
                         calls := calls w @ [free_call this p n]\<rparr>)))"

definition ReallocateData_common ::
  "'b Allocator_common world \<Rightarrow> nat \<Rightarrow> data_ptr_t \<Rightarrow> idx_t
     \<Rightarrow> (exception + data_ptr_t) \<times> 'b Allocator_common world" where
  "ReallocateData_common w this p n =
     (if p = nullptr then (Inr p, w)
      else
        (case allocators w this of
           None \<Rightarrow> (Inl (UndefinedBehaviour ''this''), w)
         | Some a \<Rightarrow>
             (case reallocate_function_c a (private_data_c a) p n of
                (new_pointer, pd) \<Rightarrow>
                  (Inr new_pointer,
                   w\<lparr>allocators := (allocators w)(this \<mapsto> a\<lparr>private_data_c := pd\<rparr>),
                     calls := calls w @ [reallocate_call_c this p n]\<rparr>))))"


section \<open>Observations and test fixtures\<close>



text \<open>The outstanding-byte counter of an allocator of the world, if there is one at \<open>this\<close>.\<close>

definition outstanding :: "'b Allocator world \<Rightarrow> nat \<Rightarrow> idx_t option" where
  "outstanding w this = map_option (\<lambda>a. allocation_count (debug_info a)) (allocators w this)"

text \<open>
  A pool with room for two blocks, at 4096 and 8192, and a pool with room for none.
\<close>

definition two_block_policy :: "(data_ptr_t \<rightharpoonup> nat) \<Rightarrow> nat \<Rightarrow> data_ptr_t" where
  "two_block_policy bs n =
     (if bs 4096 = None then 4096 else if bs 8192 = None then 8192 else nullptr)"

definition exhausted_policy :: "(data_ptr_t \<rightharpoonup> nat) \<Rightarrow> nat \<Rightarrow> data_ptr_t" where
  "exhausted_policy bs n = nullptr"

definition zero_pool :: "data_ptr_t \<Rightarrow> data_t" where
  "zero_pool a = 0"

definition empty_vmm :: lemon_vmm where
  "empty_vmm = \<lparr>policy = two_block_policy, blocks = Map.empty, pool = zero_pool\<rparr>"

text \<open>
  Two pools in which the block at 4096 is live, 100 bytes that each hold the low byte of
  their address: one with room for a second block, one with no room left.
\<close>

definition pattern_pool :: "data_ptr_t \<Rightarrow> data_t" where
  "pattern_pool a = of_nat a"

definition busy_vmm :: lemon_vmm where
  "busy_vmm =
     \<lparr>policy = two_block_policy, blocks = Map.empty(4096 \<mapsto> 100), pool = pattern_pool\<rparr>"

definition full_vmm :: lemon_vmm where
  "full_vmm =
     \<lparr>policy = exhausted_policy, blocks = Map.empty(4096 \<mapsto> 100), pool = pattern_pool\<rparr>"

text \<open>
  A fake backend that counts its live regions: every allocation is at 4096, every
  reallocation moves to 8192. And one that is out of memory.
\<close>

definition fake_allocate :: "nat \<Rightarrow> idx_t \<Rightarrow> data_ptr_t \<times> nat" where
  "fake_allocate b n = (4096, Suc b)"

definition fake_free :: "nat \<Rightarrow> data_ptr_t \<Rightarrow> idx_t \<Rightarrow> nat" where
  "fake_free b p n = b - 1"

definition fake_reallocate :: "nat \<Rightarrow> data_ptr_t \<Rightarrow> idx_t \<Rightarrow> idx_t \<Rightarrow> data_ptr_t \<times> nat" where
  "fake_reallocate b p old_size n = (8192, b)"

definition null_allocate :: "nat \<Rightarrow> idx_t \<Rightarrow> data_ptr_t \<times> nat" where
  "null_allocate b n = (nullptr, b)"

definition null_reallocate :: "nat \<Rightarrow> data_ptr_t \<Rightarrow> idx_t \<Rightarrow> idx_t \<Rightarrow> data_ptr_t \<times> nat" where
  "null_reallocate b p old_size n = (nullptr, b)"

definition fake_reallocate_c :: "nat \<Rightarrow> data_ptr_t \<Rightarrow> idx_t \<Rightarrow> data_ptr_t \<times> nat" where
  "fake_reallocate_c b p n = (8192, b)"

text \<open>The debug info as its constructor leaves it.\<close>

definition fresh_debug_info :: AllocatorDebugInfo where
  "fresh_debug_info = \<lparr>allocation_count = 0, pointers = Map.empty\<rparr>"

definition fake_allocator :: "nat Allocator" where
  "fake_allocator =
     \<lparr>allocate_function = fake_allocate, free_function = fake_free,
      reallocate_function = fake_reallocate, private_data = 0,
      debug_info = fresh_debug_info\<rparr>"

definition null_allocator :: "nat Allocator" where
  "null_allocator =
     \<lparr>allocate_function = null_allocate, free_function = fake_free,
      reallocate_function = null_reallocate, private_data = 0,
      debug_info = fresh_debug_info\<rparr>"

definition fake_allocator_c :: "nat Allocator_common" where
  "fake_allocator_c =
     \<lparr>allocate_function_c = fake_allocate, free_function_c = fake_free,
      reallocate_function_c = fake_reallocate_c, private_data_c = 0\<rparr>"

text \<open>
  Worlds with one allocator, at address 512, and nothing recorded: the fake backend over
  the empty pool and over the pool with one live block, and the backend that is out of
  memory over the pool that is full.
\<close>

definition fake_world :: "nat Allocator world" where
  "fake_world =
     \<lparr>allocators = Map.empty(512 \<mapsto> fake_allocator), vmm = empty_vmm, calls = [], cout = [],
      stack_trace = ''main''\<rparr>"

definition busy_world :: "nat Allocator world" where
  "busy_world = fake_world\<lparr>vmm := busy_vmm\<rparr>"

definition null_world :: "nat Allocator world" where
  "null_world =
     \<lparr>allocators = Map.empty(512 \<mapsto> null_allocator), vmm = full_vmm, calls = [], cout = [],
      stack_trace = ''main''\<rparr>"

definition fake_world_c :: "nat Allocator_common world" where
  "fake_world_c =
     \<lparr>allocators = Map.empty(512 \<mapsto> fake_allocator_c), vmm = empty_vmm, calls = [], cout = [],
      stack_trace = ''main''\<rparr>"

text \<open>
  Buffers of the allocator at address 512: two of a few bytes, one of 64 KiB, and one of
  the logging variant.
\<close>

definition first_buffer :: AllocatedData where
  "first_buffer = \<lparr>allocator = Some 512, pointer = 4096, allocated_size = 8\<rparr>"

definition second_buffer :: AllocatedData where
  "second_buffer = \<lparr>allocator = Some 512, pointer = 8192, allocated_size = 16\<rparr>"



text \<open>
  The builds, with a ceiling of \<open>2 ^ 48\<close> bytes: the file as it is (release, pool), and
  the function table in release, debug and extended debug.
\<close>

definition lemon_release :: config where
  "lemon_release = \<lparr>mode = Release True, MAXIMUM_ALLOC_SIZE = 2 ^ 48\<rparr>"

definition table_release :: config where
  "table_release = \<lparr>mode = Release False, MAXIMUM_ALLOC_SIZE = 2 ^ 48\<rparr>"

definition table_debug :: config where
  "table_debug = \<lparr>mode = Debug False, MAXIMUM_ALLOC_SIZE = 2 ^ 48\<rparr>"

definition table_debug_extended :: config where
  "table_debug_extended = \<lparr>mode = Debug True, MAXIMUM_ALLOC_SIZE = 2 ^ 48\<rparr>"

text \<open>
  \<open>k\<close> calls of \<^verbatim>\<open>AllocateData\<close> in a row, each for \<open>n\<close> bytes, none of them freed.
\<close>

fun allocate_many :: "config \<Rightarrow> 'b Allocator world \<Rightarrow> nat \<Rightarrow> idx_t \<Rightarrow> nat \<Rightarrow> 'b Allocator world" where
  "allocate_many cfg w this n 0 = w"
| "allocate_many cfg w this n (Suc k) = allocate_many cfg (snd (AllocateData cfg w this n)) this n k"

text \<open>
  A backend with 4 GiB to give: it refuses any larger request with the null pointer.
\<close>

definition bounded_allocate :: "nat \<Rightarrow> idx_t \<Rightarrow> data_ptr_t \<times> nat" where
  "bounded_allocate b n = (if n \<le> 2 ^ 32 then (4096, Suc b) else (nullptr, b))"

definition bounded_allocator :: "nat Allocator" where
  "bounded_allocator = fake_allocator\<lparr>allocate_function := bounded_allocate\<rparr>"

definition bounded_world :: "nat Allocator world" where
  "bounded_world = fake_world\<lparr>allocators := Map.empty(512 \<mapsto> bounded_allocator)\<rparr>"

text \<open>
  That allocator in a debug build after 65536 requests of \<open>2 ^ 48 - 1\<close> bytes, the largest
  size under the ceiling, each refused by the backend and each added to the counter all
  the same (the debug info is updated before the result is tested): no region is live and
  \<open>2 ^ 64 - 2 ^ 16\<close> bytes are counted as outstanding.
\<close>

definition near_full_allocator :: "nat Allocator" where
  "near_full_allocator =
     bounded_allocator\<lparr>debug_info := \<lparr>allocation_count = 18446744073709486080,
                                      pointers = Map.empty\<rparr>\<rparr>"

definition near_full_world :: "nat Allocator world" where
  "near_full_world = fake_world\<lparr>allocators := Map.empty(512 \<mapsto> near_full_allocator)\<rparr>"

section \<open>Null pointers\<close>

text \<open>
  C5. \<^verbatim>\<open>ReallocateData\<close> on a null pointer returns the null pointer as a normal result,
  for every old and new size, and leaves the world as it was: no backend or pool call is
  recorded and nothing else changes. This holds in every build of \<^verbatim>\<open>part_000\<close> and for the
  logging variant.
\<close>

theorem ReallocateData_nullptr:
  "ReallocateData cfg w this nullptr old_size n = (Inr nullptr, w)
   \<and> ReallocateData_common w' this' nullptr n' = (Inr nullptr, w')"
  by (simp add: ReallocateData_def ReallocateData_common_def)

theorem ReallocateData_nullptr_witness:
  "ReallocateData lemon_release fake_world 512 nullptr 100 200 = (Inr nullptr, fake_world)
   \<and> ReallocateData_common fake_world_c 512 nullptr 200 = (Inr nullptr, fake_world_c)"
  using ReallocateData_nullptr [of lemon_release fake_world 512 100 200 fake_world_c 512 200]
  by simp

text \<open>
  C6. \<^verbatim>\<open>FreeData\<close> on a null pointer returns at once, whatever the size: the world it
  leaves is the world it was given, so no free call is recorded and the outstanding-byte
  counter and the pointer registry of every allocator are unchanged. This holds in every
  build of \<^verbatim>\<open>part_000\<close> and for the logging variant.
\<close>

theorem FreeData_nullptr:
  "FreeData cfg w this nullptr n = (Inr (), w)
   \<and> FreeData_common w' this' nullptr n' = (Inr (), w')"
  by (simp add: FreeData_def FreeData_common_def)

theorem FreeData_nullptr_witness:
  "FreeData table_debug_extended fake_world 512 nullptr 0 = (Inr (), fake_world)
   \<and> FreeData_common fake_world_c 512 nullptr 8 = (Inr (), fake_world_c)"
  using FreeData_nullptr [of table_debug_extended fake_world 512 0 fake_world_c 512 8]
  by simp

text \<open>
  C10. In \<^verbatim>\<open>ReallocateData\<close> the null check comes before the size ceiling. With a new size
  at or above \<^verbatim>\<open>MAXIMUM_ALLOC_SIZE\<close>, a null pointer is still answered with the null pointer
  and an unchanged world, while every non-null pointer makes the call fail, the world
  unchanged: with the out-of-range exception, or in a debug build at the
  \<^verbatim>\<open>D_ASSERT(false)\<close> in front of it.
\<close>

theorem ReallocateData_null_check_first:
  assumes "MAXIMUM_ALLOC_SIZE cfg \<le> n"
  shows "ReallocateData cfg w this nullptr old_size n = (Inr nullptr, w)
         \<and> (\<forall>p. p \<noteq> nullptr \<longrightarrow>
               ReallocateData cfg w this p old_size n =
                 (Inl (if DEBUG cfg then AssertionFailure ''false''
                       else InternalException out_of_range_re [n, MAXIMUM_ALLOC_SIZE cfg]), w))"
  using assms by (simp add: ReallocateData_def D_ASSERT_fails_def)

theorem ReallocateData_null_check_first_witness:
  "MAXIMUM_ALLOC_SIZE lemon_release \<le> 2 ^ 50
   \<and> ReallocateData lemon_release fake_world 512 nullptr 100 (2 ^ 50) = (Inr nullptr, fake_world)
   \<and> ReallocateData lemon_release fake_world 512 4096 100 (2 ^ 50) =
       (Inl (InternalException out_of_range_re [2 ^ 50, 2 ^ 48]), fake_world)"
proof -
  have h: "MAXIMUM_ALLOC_SIZE lemon_release \<le> 2 ^ 50"
    by (simp add: lemon_release_def)
  have d: "\<not> DEBUG lemon_release"
    by (simp add: DEBUG_def lemon_release_def)
  have m: "MAXIMUM_ALLOC_SIZE lemon_release = 2 ^ 48"
    by (simp add: lemon_release_def)
  show ?thesis
    using h d m ReallocateData_null_check_first [OF h, of fake_world 512 100] by simp
qed

section \<open>The owned buffer\<close>

text \<open>
  C7. The constructor of \<^verbatim>\<open>part_000\<close>, given a null pointer, raises the
  \<^verbatim>\<open>InternalException\<close> "AllocatedData object constructed with nullptr" (the spec's
  InvalidArgument) for every allocator and size, and whenever it returns a buffer, the
  buffer's pointer is not null.
\<close>

theorem AllocatedData_new_nullptr:
  "AllocatedData_new a nullptr n = Inl (InternalException constructed_with_nullptr [])
   \<and> (\<forall>p d. AllocatedData_new a p n = Inr d \<longrightarrow> pointer d \<noteq> nullptr)"
  by (auto simp add: AllocatedData_new_def split: if_splits)

theorem AllocatedData_new_nullptr_witness:
  "AllocatedData_new 512 nullptr 8 = Inl (InternalException constructed_with_nullptr [])
   \<and> AllocatedData_new 512 4096 8 = Inr first_buffer
   \<and> pointer first_buffer \<noteq> nullptr"
  using AllocatedData_new_nullptr [of 512 8]
  by (simp add: AllocatedData_new_def first_buffer_def)


















text \<open>
  C4, as the code has it. Move construction hands pointer, size and allocator pointer to
  the new buffer and leaves the source with a null pointer and size 0, so that a
  \<^verbatim>\<open>Reset\<close> of the source (its destructor) changes nothing and calls no free. Move
  assignment swaps the three fields: the assigned buffer receives pointer, size and
  allocator pointer of the source, and the source receives those the assigned buffer had
  before. The source is then released, and its destructor free of any call, when the
  assigned buffer was released before the assignment.
\<close>

theorem move_keeps_one_owner:
  "fst (AllocatedData_move other) =
     \<lparr>allocator = allocator other, pointer = pointer other,
      allocated_size = allocated_size other\<rparr>
   \<and> pointer (snd (AllocatedData_move other)) = nullptr
   \<and> allocated_size (snd (AllocatedData_move other)) = 0
   \<and> Reset cfg w (snd (AllocatedData_move other)) = (Inr (), w, snd (AllocatedData_move other))
   \<and> allocator (fst (AllocatedData_move_assign self other)) = allocator other
   \<and> pointer (fst (AllocatedData_move_assign self other)) = pointer other
   \<and> allocated_size (fst (AllocatedData_move_assign self other)) = allocated_size other
   \<and> allocator (snd (AllocatedData_move_assign self other)) = allocator self
   \<and> pointer (snd (AllocatedData_move_assign self other)) = pointer self
   \<and> allocated_size (snd (AllocatedData_move_assign self other)) = allocated_size self
   \<and> (pointer self = nullptr \<longrightarrow>
        Reset cfg w (snd (AllocatedData_move_assign self other)) =
          (Inr (), w, snd (AllocatedData_move_assign self other)))"
  by (simp add: AllocatedData_move_def AllocatedData_move_assign_def Reset_def)

text \<open>Assigning to a default-constructed buffer: the source is left released.\<close>

theorem move_keeps_one_owner_witness:
  "pointer AllocatedData_default = nullptr
   \<and> fst (AllocatedData_move_assign AllocatedData_default first_buffer) = first_buffer
   \<and> snd (AllocatedData_move_assign AllocatedData_default first_buffer) = AllocatedData_default
   \<and> Reset lemon_release fake_world
        (snd (AllocatedData_move_assign AllocatedData_default first_buffer)) =
       (Inr (), fake_world, AllocatedData_default)"
  using move_keeps_one_owner [of first_buffer lemon_release fake_world AllocatedData_default]
  by (simp add: AllocatedData_default_def first_buffer_def AllocatedData_move_assign_def)

text \<open>
  Assigning to a buffer that holds the region at 4096: the source is left holding that
  region, not released, and its destructor calls \<^verbatim>\<open>lemon_free\<close> on it.
\<close>

theorem move_assign_counterexample:
  "pointer (snd (AllocatedData_move_assign first_buffer second_buffer)) = 4096
   \<and> allocated_size (snd (AllocatedData_move_assign first_buffer second_buffer)) = 8
   \<and> fst (Reset lemon_release fake_world
            (snd (AllocatedData_move_assign first_buffer second_buffer))) = Inr ()
   \<and> calls (fst (snd (Reset lemon_release fake_world
            (snd (AllocatedData_move_assign first_buffer second_buffer))))) =
       [lemon_free_call 4096]"
  by (simp add: AllocatedData_move_assign_def first_buffer_def second_buffer_def Reset_def
      FreeData_def D_ASSERT_fails_def DEBUG_def LEMON_MALLOC_def lemon_release_def
      fake_world_def)

section \<open>The size ceiling\<close>

text \<open>
  C1, as the code has it. A size at or above \<^verbatim>\<open>MAXIMUM_ALLOC_SIZE\<close> makes
  \<^verbatim>\<open>AllocateData\<close> fail with the world unchanged, so without a backend or pool call: with
  the out-of-range \<^verbatim>\<open>InternalException\<close> (the spec's SizeLimitExceeded) in a build without
  \<^verbatim>\<open>DEBUG\<close>, and at the \<^verbatim>\<open>D_ASSERT(false)\<close> in front of the throw in a debug build. Size 0
  is refused in a debug build only, by \<^verbatim>\<open>D_ASSERT(size > 0)\<close>, again with the world
  unchanged. In a build without assertions \<^verbatim>\<open>AllocateData(0)\<close> goes to the backend like any
  size under the ceiling: in the pool build it calls \<^verbatim>\<open>lemon_malloc(0)\<close> and returns its
  result; over the function table it calls the allocate function with size 0 and returns
  its result, or raises \<^verbatim>\<open>std::bad_alloc\<close> when that is null.
\<close>

theorem AllocateData_size_ceiling:
  "(MAXIMUM_ALLOC_SIZE cfg \<le> s \<or> s = 0 \<and> DEBUG cfg \<longrightarrow>
      AllocateData cfg w this s =
        (Inl (if DEBUG cfg then AssertionFailure (if s = 0 then ''size > 0'' else ''false'')
              else InternalException out_of_range [s, MAXIMUM_ALLOC_SIZE cfg]), w))
   \<and> (LEMON_MALLOC cfg \<and> 0 < MAXIMUM_ALLOC_SIZE cfg \<longrightarrow>
      calls (snd (AllocateData cfg w this 0)) = calls w @ [lemon_malloc_call 0])
   \<and> (LEMON_MALLOC cfg \<and> 0 < MAXIMUM_ALLOC_SIZE cfg \<longrightarrow>
      AllocateData cfg w this 0 =
        (Inr (fst (lemon_malloc (vmm w) 0)),
         w\<lparr>vmm := snd (lemon_malloc (vmm w) 0), calls := calls w @ [lemon_malloc_call 0]\<rparr>))
   \<and> (\<not> LEMON_MALLOC cfg \<and> \<not> DEBUG cfg \<and> 0 < MAXIMUM_ALLOC_SIZE cfg
        \<and> allocators w this = Some a \<longrightarrow>
      AllocateData cfg w this 0 =
        (if fst (allocate_function a (private_data a) 0) = nullptr then Inl bad_alloc
         else Inr (fst (allocate_function a (private_data a) 0)),
         w\<lparr>allocators := (allocators w)(this \<mapsto>
               a\<lparr>private_data := snd (allocate_function a (private_data a) 0)\<rparr>),
           calls := calls w @ [allocate_call this 0]\<rparr>))"
proof (intro conjI impI)
  assume "MAXIMUM_ALLOC_SIZE cfg \<le> s \<or> s = 0 \<and> DEBUG cfg"
  then show "AllocateData cfg w this s =
        (Inl (if DEBUG cfg then AssertionFailure (if s = 0 then ''size > 0'' else ''false'')
              else InternalException out_of_range [s, MAXIMUM_ALLOC_SIZE cfg]), w)"
    by (auto simp add: AllocateData_def D_ASSERT_fails_def word_neq_0_conv)
next
  assume a: "LEMON_MALLOC cfg \<and> 0 < MAXIMUM_ALLOC_SIZE cfg"
  then have d: "\<not> DEBUG cfg"
    by (cases "mode cfg") (simp_all add: LEMON_MALLOC_def DEBUG_def)
  from a have m: "MAXIMUM_ALLOC_SIZE cfg \<noteq> 0"
    by auto
  show e: "AllocateData cfg w this 0 =
        (Inr (fst (lemon_malloc (vmm w) 0)),
         w\<lparr>vmm := snd (lemon_malloc (vmm w) 0), calls := calls w @ [lemon_malloc_call 0]\<rparr>)"
    using a d m by (simp add: AllocateData_def D_ASSERT_fails_def split: prod.splits)
  show "calls (snd (AllocateData cfg w this 0)) = calls w @ [lemon_malloc_call 0]"
    by (simp add: e)
next
  assume a: "\<not> LEMON_MALLOC cfg \<and> \<not> DEBUG cfg \<and> 0 < MAXIMUM_ALLOC_SIZE cfg
        \<and> allocators w this = Some a"
  then have m: "MAXIMUM_ALLOC_SIZE cfg \<noteq> 0"
    by auto
  show "AllocateData cfg w this 0 =
        (if fst (allocate_function a (private_data a) 0) = nullptr then Inl bad_alloc
         else Inr (fst (allocate_function a (private_data a) 0)),
         w\<lparr>allocators := (allocators w)(this \<mapsto>
               a\<lparr>private_data := snd (allocate_function a (private_data a) 0)\<rparr>),
           calls := calls w @ [allocate_call this 0]\<rparr>)"
    using a m by (simp add: AllocateData_def D_ASSERT_fails_def Let_def split: prod.splits)
qed


theorem AllocateData_size_ceiling_witness:
  "MAXIMUM_ALLOC_SIZE lemon_release \<le> 2 ^ 48
   \<and> AllocateData lemon_release fake_world 512 (2 ^ 48) =
       (Inl (InternalException out_of_range [2 ^ 48, 2 ^ 48]), fake_world)
   \<and> DEBUG table_debug
   \<and> AllocateData table_debug fake_world 512 0 = (Inl (AssertionFailure ''size > 0''), fake_world)
   \<and> LEMON_MALLOC lemon_release \<and> 0 < MAXIMUM_ALLOC_SIZE lemon_release
   \<and> calls (snd (AllocateData lemon_release fake_world 512 0)) =
       calls fake_world @ [lemon_malloc_call 0]
   \<and> fst (AllocateData lemon_release fake_world 512 0) = Inr 4096
   \<and> \<not> LEMON_MALLOC table_release \<and> \<not> DEBUG table_release
   \<and> 0 < MAXIMUM_ALLOC_SIZE table_release
   \<and> allocators fake_world 512 = Some fake_allocator
   \<and> fst (AllocateData table_release fake_world 512 0) = Inr 4096
   \<and> calls (snd (AllocateData table_release fake_world 512 0)) =
       calls fake_world @ [allocate_call 512 0]"
proof -
  have m: "MAXIMUM_ALLOC_SIZE lemon_release = 2 ^ 48" "MAXIMUM_ALLOC_SIZE table_release = 2 ^ 48"
    by (simp_all add: lemon_release_def table_release_def)
  have d: "\<not> DEBUG lemon_release" "DEBUG table_debug" "LEMON_MALLOC lemon_release"
    "\<not> LEMON_MALLOC table_release" "\<not> DEBUG table_release"
    by (simp_all add: DEBUG_def LEMON_MALLOC_def lemon_release_def table_debug_def
        table_release_def)
  have a: "allocators fake_world 512 = Some fake_allocator"
    by (simp add: fake_world_def)
  have f: "allocate_function fake_allocator (private_data fake_allocator) 0 = (4096, Suc 0)"
    by (simp add: fake_allocator_def fake_allocate_def)
  have l: "fst (lemon_malloc (vmm fake_world) 0) = 4096"
    by (simp add: lemon_malloc_def fake_world_def empty_vmm_def two_block_policy_def Let_def)
  show ?thesis
    using m d a f l
      AllocateData_size_ceiling [of lemon_release "2 ^ 48" fake_world 512 fake_allocator]
      AllocateData_size_ceiling [of table_debug 0 fake_world 512 fake_allocator]
      AllocateData_size_ceiling [of table_release 0 fake_world 512 fake_allocator]
    by simp
qed

text \<open>
  In the build of the file as it is, \<^verbatim>\<open>AllocateData(0)\<close> raises nothing: it returns the
  block the pool hands out, and the call to the pool is recorded.
\<close>

theorem AllocateData_zero_counterexample:
  "fst (AllocateData lemon_release fake_world 512 0) = Inr 4096
   \<and> calls (snd (AllocateData lemon_release fake_world 512 0)) = [lemon_malloc_call 0]"
  by (simp add: AllocateData_def D_ASSERT_fails_def DEBUG_def LEMON_MALLOC_def
      lemon_release_def fake_world_def lemon_malloc_def empty_vmm_def two_block_policy_def)

section \<open>The outstanding-byte counter\<close>

lemma DEBUG_excludes_LEMON_MALLOC: "DEBUG cfg \<Longrightarrow> \<not> LEMON_MALLOC cfg"
  by (cases "mode cfg") (simp_all add: DEBUG_def LEMON_MALLOC_def)

lemma counter_no_wrap:
  fixes c s :: idx_t
  assumes "unat c + unat s < 2 ^ 64"
  shows "s \<le> c + s"
proof -
  have "unat (c + s) = unat c + unat s"
    using assms by (simp add: unat_add_lem [THEN iffD1])
  then show ?thesis
    by (simp add: word_le_nat_alt)
qed

lemma DebugInfo_FreeData_after_AllocateData:
  assumes "unat (allocation_count di) + unat s < 2 ^ 64"
  shows "\<exists>di2. DebugInfo_FreeData cfg (DebugInfo_AllocateData cfg trace di p s) p s = (None, di2)
           \<and> allocation_count di2 = allocation_count di"
  using counter_no_wrap [OF assms]
  by (simp add: DebugInfo_FreeData_def DebugInfo_AllocateData_def Let_def)

lemma AllocateData_debug_returns:
  assumes "DEBUG cfg" and "AllocateData cfg w this s = (Inr p, w1)"
  shows "\<exists>a pd. allocators w this = Some a \<and> p \<noteq> nullptr
           \<and> allocate_function a (private_data a) s = (p, pd)
           \<and> w1 = w\<lparr>allocators := (allocators w)(this \<mapsto>
                       a\<lparr>private_data := pd,
                         debug_info := DebugInfo_AllocateData cfg (stack_trace w) (debug_info a) p s\<rparr>),
                     calls := calls w @ [allocate_call this s]\<rparr>"
  using assms DEBUG_excludes_LEMON_MALLOC [OF assms(1)]
  by (auto simp add: AllocateData_def Let_def split: if_splits option.splits prod.splits)

text \<open>
  C8, as the code has it. In a debug build, for a size \<open>s\<close> with
  \<open>0 < s < MAXIMUM_ALLOC_SIZE\<close>, when the counter plus \<open>s\<close> stays below \<open>2 ^ 64\<close>: after
  \<^verbatim>\<open>AllocateData(s)\<close> has returned a pointer, \<^verbatim>\<open>FreeData\<close> on that pointer with the same
  size returns, and the outstanding-byte counter of the allocator is what it was before the
  two calls.
\<close>

theorem AllocateData_FreeData_outstanding:
  assumes "DEBUG cfg" and "0 < s" and "s < MAXIMUM_ALLOC_SIZE cfg"
    and "outstanding w this = Some c" and "unat c + unat s < 2 ^ 64"
    and "AllocateData cfg w this s = (Inr p, w1)"
  shows "\<exists>w2. FreeData cfg w1 this p s = (Inr (), w2) \<and> outstanding w2 this = Some c"
proof -
  from AllocateData_debug_returns [OF assms(1) assms(6)]
  obtain a pd where a: "allocators w this = Some a" and p: "p \<noteq> nullptr"
    and w1: "w1 = w\<lparr>allocators := (allocators w)(this \<mapsto>
                       a\<lparr>private_data := pd,
                         debug_info := DebugInfo_AllocateData cfg (stack_trace w) (debug_info a) p s\<rparr>),
                     calls := calls w @ [allocate_call this s]\<rparr>"
    by blast
  have c: "allocation_count (debug_info a) = c"
    using assms(4) a by (simp add: outstanding_def)
  from DebugInfo_FreeData_after_AllocateData [of "debug_info a" s cfg "stack_trace w" p]
  obtain di2 where f: "DebugInfo_FreeData cfg
        (DebugInfo_AllocateData cfg (stack_trace w) (debug_info a) p s) p s = (None, di2)"
    and c2: "allocation_count di2 = c"
    using assms(5) c by auto
  have l: "\<not> LEMON_MALLOC cfg"
    by (rule DEBUG_excludes_LEMON_MALLOC [OF assms(1)])
  show ?thesis
    using p assms(1) assms(2) l f c2
    by (simp add: FreeData_def D_ASSERT_fails_def w1 outstanding_def)
qed

theorem AllocateData_FreeData_outstanding_witness:
  "DEBUG table_debug_extended \<and> (0 :: idx_t) < 100
   \<and> 100 < MAXIMUM_ALLOC_SIZE table_debug_extended
   \<and> outstanding fake_world 512 = Some 0
   \<and> unat (0 :: idx_t) + unat (100 :: idx_t) < 2 ^ 64
   \<and> fst (AllocateData table_debug_extended fake_world 512 100) = Inr 4096
   \<and> (\<exists>w2. FreeData table_debug_extended
               (snd (AllocateData table_debug_extended fake_world 512 100)) 512 4096 100 =
               (Inr (), w2)
           \<and> outstanding w2 512 = Some 0)"
proof -
  have d: "DEBUG table_debug_extended"
    by (simp add: DEBUG_def table_debug_extended_def)
  have l: "\<not> LEMON_MALLOC table_debug_extended"
    by (simp add: LEMON_MALLOC_def table_debug_extended_def)
  have m: "100 < MAXIMUM_ALLOC_SIZE table_debug_extended"
    by (simp add: table_debug_extended_def)
  have a: "allocators fake_world 512 = Some fake_allocator"
    by (simp add: fake_world_def)
  have o: "outstanding fake_world 512 = Some 0"
    by (simp add: outstanding_def a fake_allocator_def fresh_debug_info_def)
  have u: "unat (0 :: idx_t) + unat (100 :: idx_t) < 2 ^ 64"
    by simp
  have f: "allocate_function fake_allocator (private_data fake_allocator) 100 = (4096, 1)"
    by (simp add: fake_allocator_def fake_allocate_def)
  have r: "fst (AllocateData table_debug_extended fake_world 512 100) = Inr 4096"
    using d l m a f by (simp add: AllocateData_def D_ASSERT_fails_def Let_def)
  have e: "AllocateData table_debug_extended fake_world 512 100 =
             (Inr 4096, snd (AllocateData table_debug_extended fake_world 512 100))"
    using r by (simp add: prod_eq_iff)
  have z: "(0 :: idx_t) < 100"
    by simp
  show ?thesis
    using d z m o u r AllocateData_FreeData_outstanding [OF d z m o u e]
    by simp
qed

text \<open>
  With \<open>2 ^ 64 - 2 ^ 16\<close> bytes outstanding, \<^verbatim>\<open>AllocateData(65536)\<close> returns a pointer and
  wraps the counter to 0; \<^verbatim>\<open>FreeData\<close> on that pointer with the same size then stops at
  \<^verbatim>\<open>D_ASSERT(allocation_count >= size)\<close> and the counter stays 0.
\<close>

theorem AllocateData_FreeData_wrap_counterexample:
  "outstanding near_full_world 512 = Some 18446744073709486080
   \<and> fst (AllocateData table_debug near_full_world 512 65536) = Inr 4096
   \<and> fst (FreeData table_debug (snd (AllocateData table_debug near_full_world 512 65536))
            512 4096 65536) = Inl (AssertionFailure ''allocation_count >= size'')
   \<and> outstanding (snd (FreeData table_debug
        (snd (AllocateData table_debug near_full_world 512 65536)) 512 4096 65536)) 512 = Some 0"
  by (simp add: AllocateData_def FreeData_def D_ASSERT_fails_def DEBUG_def LEMON_MALLOC_def
      DUCKDB_DEBUG_ALLOCATION_def table_debug_def near_full_world_def near_full_allocator_def
      bounded_allocator_def bounded_allocate_def fake_world_def fake_allocator_def
      outstanding_def
      DebugInfo_AllocateData_def DebugInfo_FreeData_def Let_def)

text \<open>
  That allocator state is what 65536 calls of \<^verbatim>\<open>AllocateData(2 ^ 48 - 1)\<close> leave, from
  the state the constructor sets up, over the backend with 4 GiB to give: every one of them
  is refused by the backend, and counted.
\<close>

lemma allocate_many_refused:
  assumes "2 ^ 32 < n" and "n < 2 ^ 48"
    and "allocators w = Map.empty(512 \<mapsto>
           bounded_allocator\<lparr>debug_info := \<lparr>allocation_count = c, pointers = Map.empty\<rparr>\<rparr>)"
  shows "allocators (allocate_many table_debug w 512 n k) = Map.empty(512 \<mapsto>
           bounded_allocator\<lparr>debug_info := \<lparr>allocation_count = c + of_nat k * n,
                                            pointers = Map.empty\<rparr>\<rparr>)"
  using assms(3)
proof (induction k arbitrary: w c)
  case 0
  then show ?case by simp
next
  case (Suc k)
  let ?a = "bounded_allocator\<lparr>debug_info := \<lparr>allocation_count = c, pointers = Map.empty\<rparr>\<rparr>"
  let ?a' = "bounded_allocator\<lparr>debug_info :=
               \<lparr>allocation_count = c + n, pointers = Map.empty\<rparr>\<rparr>"
  have a: "allocators w 512 = Some ?a"
    by (simp add: Suc.prems)
  have m: "\<not> MAXIMUM_ALLOC_SIZE table_debug \<le> n"
    using assms(2) by (simp add: table_debug_def not_le)
  have "(0 :: idx_t) \<le> 2 ^ 32"
    by simp
  then have "0 < n"
    using assms(1) by (rule le_less_trans)
  then have z: "\<not> D_ASSERT_fails table_debug (0 < n)"
    by (simp add: D_ASSERT_fails_def)
  have l: "\<not> LEMON_MALLOC table_debug" "DEBUG table_debug"
    "\<not> DUCKDB_DEBUG_ALLOCATION table_debug"
    by (simp_all add: LEMON_MALLOC_def DEBUG_def DUCKDB_DEBUG_ALLOCATION_def table_debug_def)
  have r: "\<not> n \<le> 2 ^ 32"
    using assms(1) by (simp add: not_le)
  have "allocators (snd (AllocateData table_debug w 512 n)) = (allocators w)(512 \<mapsto> ?a')"
    using r
    by (simp add: AllocateData_def m z l a DebugInfo_AllocateData_def Let_def
        bounded_allocator_def bounded_allocate_def fake_allocator_def)
  then have step:
    "allocators (snd (AllocateData table_debug w 512 n)) = Map.empty(512 \<mapsto> ?a')"
    by (simp only: Suc.prems fun_upd_upd)
  show ?case
    using Suc.IH [OF step] by (simp add: algebra_simps)
qed

lemma near_full_world_reachable:
  "allocators (allocate_many table_debug bounded_world 512 (2 ^ 48 - 1) 65536) =
     allocators near_full_world"
proof -
  have i: "allocators bounded_world = Map.empty(512 \<mapsto>
           bounded_allocator\<lparr>debug_info := \<lparr>allocation_count = 0, pointers = Map.empty\<rparr>\<rparr>)"
    by (simp add: bounded_world_def bounded_allocator_def fake_allocator_def
        fresh_debug_info_def)
  have n: "(2 ^ 32 :: idx_t) < 2 ^ 48 - 1" "(2 ^ 48 - 1 :: idx_t) < 2 ^ 48"
    by simp_all
  show ?thesis
    using allocate_many_refused [OF n i, of 65536]
    by (simp add: near_full_world_def near_full_allocator_def)
qed

section \<open>The pool build\<close>

text \<open>
  C3, at the pool build of the file as it is. With the pool exhausted, \<^verbatim>\<open>AllocateData(8)\<close>
  returns the null pointer to its caller, and \<^verbatim>\<open>ReallocateData\<close> of the live 100-byte
  block passes the null pointer to \<^verbatim>\<open>memcpy\<close>. Over the function table, with a backend that
  returns null, the same two calls raise \<^verbatim>\<open>std::bad_alloc\<close>.
\<close>

theorem lemon_null_not_checked:
  "fst (AllocateData lemon_release null_world 512 8) = Inr nullptr
   \<and> fst (ReallocateData lemon_release null_world 512 4096 100 200) =
       Inl (UndefinedBehaviour ''memcpy'')
   \<and> fst (AllocateData table_release null_world 512 8) = Inl bad_alloc
   \<and> fst (ReallocateData table_release null_world 512 4096 100 200) = Inl bad_alloc"
  by (simp add: AllocateData_def ReallocateData_def D_ASSERT_fails_def DEBUG_def LEMON_MALLOC_def
      lemon_release_def table_release_def null_world_def null_allocator_def null_allocate_def
      null_reallocate_def full_vmm_def exhausted_policy_def lemon_malloc_def memcpy_def
      holds_bytes_def Let_def)

text \<open>
  Over the function table a null result of the backend is turned into \<^verbatim>\<open>std::bad_alloc\<close>,
  for every size under the ceiling.
\<close>

lemma AllocateData_table_bad_alloc:
  assumes "\<not> LEMON_MALLOC cfg" and "0 < s" and "s < MAXIMUM_ALLOC_SIZE cfg"
    and "allocators w this = Some a"
    and "fst (allocate_function a (private_data a) s) = nullptr"
  shows "fst (AllocateData cfg w this s) = Inl bad_alloc"
proof -
  have m: "\<not> MAXIMUM_ALLOC_SIZE cfg \<le> s"
    using assms(3) by (simp add: not_le)
  show ?thesis
    using assms(1) assms(2) assms(4) assms(5) m
    by (auto simp add: AllocateData_def D_ASSERT_fails_def Let_def split: prod.splits)
qed

lemma ReallocateData_table_bad_alloc:
  assumes "\<not> LEMON_MALLOC cfg" and "\<not> DEBUG cfg" and "p \<noteq> nullptr"
    and "s < MAXIMUM_ALLOC_SIZE cfg" and "allocators w this = Some a"
    and "fst (reallocate_function a (private_data a) p old_size s) = nullptr"
  shows "fst (ReallocateData cfg w this p old_size s) = Inl bad_alloc"
proof -
  have m: "\<not> MAXIMUM_ALLOC_SIZE cfg \<le> s"
    using assms(4) by (simp add: not_le)
  show ?thesis
    using assms(1) assms(2) assms(3) assms(5) assms(6) m
    by (auto simp add: ReallocateData_def D_ASSERT_fails_def Let_def split: prod.splits)
qed

text \<open>
  C2, at the pool build of the file as it is. Shrinking the live 100-byte block at 4096 to
  50 bytes allocates a 50-byte block at 8192 and then copies \<^verbatim>\<open>old_size\<close>, 100 bytes, into
  it: the \<^verbatim>\<open>memcpy\<close> runs 50 bytes past the end of the new block, and no region is
  returned.
\<close>

theorem shrink_overruns_new_block:
  "fst (ReallocateData lemon_release busy_world 512 4096 100 50) =
     Inl (UndefinedBehaviour ''memcpy'')
   \<and> blocks (vmm (snd (ReallocateData lemon_release busy_world 512 4096 100 50))) 8192 = Some 50
   \<and> calls (snd (ReallocateData lemon_release busy_world 512 4096 100 50)) =
       [lemon_malloc_call 50]"
  by (simp add: ReallocateData_def D_ASSERT_fails_def DEBUG_def LEMON_MALLOC_def
      lemon_release_def busy_world_def fake_world_def busy_vmm_def two_block_policy_def
      lemon_malloc_def memcpy_def holds_bytes_def Let_def)

text \<open>
  Growing is sound in the pool build: when the pool hands out a block apart from the old
  one, the call returns it and its first \<^verbatim>\<open>old_size\<close> bytes are those of the old block.
\<close>

lemma ReallocateData_lemon_grow:
  assumes "LEMON_MALLOC cfg" and "p \<noteq> nullptr" and "n < MAXIMUM_ALLOC_SIZE cfg"
    and "blocks (vmm w) p = Some c" and "unat old_size \<le> c" and "unat old_size \<le> unat n"
    and "policy (vmm w) (blocks (vmm w)) (unat n) = q" and "q \<noteq> nullptr"
    and "q + unat old_size \<le> p \<or> p + unat old_size \<le> q"
  shows "\<exists>w1. ReallocateData cfg w this p old_size n = (Inr q, w1)
           \<and> (\<forall>i < unat old_size. pool (vmm w1) (q + i) = pool (vmm w) (p + i))"
proof -
  have d: "\<not> DEBUG cfg"
    using assms(1) by (cases "mode cfg") (simp_all add: LEMON_MALLOC_def DEBUG_def)
  have m: "\<not> MAXIMUM_ALLOC_SIZE cfg \<le> n"
    using assms(3) by (simp add: not_le)
  let ?v1 = "(vmm w)\<lparr>blocks := (blocks (vmm w))(q \<mapsto> unat n)\<rparr>"
  have a: "lemon_malloc (vmm w) n = (q, ?v1)"
    using assms(7) assms(8) by (simp add: lemon_malloc_def Let_def)
  have h: "holds_bytes ?v1 q (unat old_size)" "holds_bytes ?v1 p (unat old_size)"
    using assms(4) assms(5) assms(6) by (auto simp add: holds_bytes_def)
  let ?v2 = "?v1\<lparr>pool := (\<lambda>a. if q \<le> a \<and> a < q + unat old_size
                                then pool ?v1 (p + (a - q)) else pool ?v1 a)\<rparr>"
  have c: "memcpy ?v1 q p (unat old_size) = Some ?v2"
    using h assms(9) by (simp add: memcpy_def)
  show ?thesis
    using assms(1) assms(2) d m a c
    by (simp add: ReallocateData_def D_ASSERT_fails_def Let_def lemon_free_def)
qed


end
